theory Spec2Isabelle
  imports Main "HOL-Library.AList"
begin

section \<open>Values and mappings\<close>

text \<open>
  The component handles Python values of type \<open>Any\<close>: the advanced search filter, the
  entries of a document's metadata, the filter handed to the bulk delete and the reply of
  the store. A mapping (\<open>dict\<close>) is an association list in insertion order; assigning to
  a key replaces the value in place when the key is there and appends the entry otherwise,
  which is what \<open>AList.update\<close> does.
\<close>

datatype pyval =
    PNone
  | PBool bool
  | PInt int
  | PStr string
  | PList "pyval list"
  | PDict "(string \<times> pyval) list"

type_synonym dict = "(string \<times> pyval) list"

text \<open>Truth value of a Python value, as \<open>if x:\<close> and \<open>not x\<close> test it.\<close>

fun truthy :: "pyval \<Rightarrow> bool" where
  "truthy PNone = False"
| "truthy (PBool b) = b"
| "truthy (PInt i) = (i \<noteq> 0)"
| "truthy (PStr s) = (s \<noteq> [])"
| "truthy (PList xs) = (xs \<noteq> [])"
| "truthy (PDict kvs) = (kvs \<noteq> [])"

section \<open>Documents and records\<close>

text \<open>
  A search result is a \<open>Document\<close> of the vector-store library: a metadata mapping, the
  page content and an optional identifier (\<open>None\<close> or a string). Each document owns its
  metadata mapping; a method that writes into the mapping returns the document as it is
  afterwards.
\<close>

record Document =
  metadata :: dict
  page_content :: string
  doc_id :: pyval

text \<open>
  Modelled from the spec: the record class \<open>Data\<close> is imported, not defined in this file.
  The spec calls it a generic key-value container with a designated text field; the
  component builds it from a mapping and a text key, and reads \<open>doc.id\<close> from it. The
  model keeps the mapping and the text key, and an attribute that is not a field is looked
  up in the mapping.
\<close>

record Data =
  data :: dict
  text_key :: string

section \<open>Exceptions\<close>

text \<open>
  A raised object: the name of its class and the text \<open>str(e)\<close> gives. \<open>Exn\<close> is an
  instance of \<open>Exception\<close>. \<open>Signal\<close> is an instance of \<open>BaseException\<close> that is not an
  instance of \<open>Exception\<close> (\<open>KeyboardInterrupt\<close>, \<open>SystemExit\<close>, \<open>GeneratorExit\<close>).
  \<open>is_Exception\<close> is the test \<open>isinstance(e, Exception)\<close> that a clause
  \<open>except Exception\<close> makes.
\<close>

datatype exn =
    Exn (exn_class: string) (exn_str: string)
  | Signal (exn_class: string) (exn_str: string)

fun is_Exception :: "exn \<Rightarrow> bool" where
  "is_Exception (Exn c s) = True"
| "is_Exception (Signal c s) = False"

definition apostrophe :: string where
  "apostrophe = [CHR 0x27]"

text \<open>
  Subscription \<open>x[key]\<close> with a string key. A mapping without the key raises
  \<open>KeyError\<close>, whose text is the key's \<open>repr\<close> (the keys read here, \<open>status\<close> and
  \<open>deletedCount\<close>, hold nothing that \<open>repr\<close> escapes); any other value raises
  \<open>TypeError\<close> with CPython's wording.
\<close>

fun getitem :: "pyval \<Rightarrow> string \<Rightarrow> exn + pyval" where
  "getitem (PDict kvs) key =
     (case map_of kvs key of
        Some v \<Rightarrow> Inr v
      | None \<Rightarrow> Inl (Exn ''KeyError'' (apostrophe @ key @ apostrophe)))"
| "getitem PNone key =
     Inl (Exn ''TypeError'' (apostrophe @ ''NoneType'' @ apostrophe @ '' object is not subscriptable''))"
| "getitem (PBool b) key =
     Inl (Exn ''TypeError'' (apostrophe @ ''bool'' @ apostrophe @ '' object is not subscriptable''))"
| "getitem (PInt i) key =
     Inl (Exn ''TypeError'' (apostrophe @ ''int'' @ apostrophe @ '' object is not subscriptable''))"
| "getitem (PStr s) key =
     Inl (Exn ''TypeError'' (''string indices must be integers, not '' @ apostrophe @ ''str'' @ apostrophe))"
| "getitem (PList xs) key =
     Inl (Exn ''TypeError'' ''list indices must be integers or slices, not str'')"

text \<open>
  Modelled from the spec: attribute access on a \<open>Data\<close> record (the class is not in this
  file). \<open>doc.id\<close> is the entry \<open>id\<close> of the record's mapping; a record without it
  raises \<open>AttributeError\<close>.
\<close>

definition getattr_Data :: "Data \<Rightarrow> string \<Rightarrow> exn + pyval" where
  "getattr_Data d key =
     (case map_of (data d) key of
        Some v \<Rightarrow> Inr v
      | None \<Rightarrow>
          Inl (Exn ''AttributeError''
                 (apostrophe @ ''Data'' @ apostrophe @ '' object has no attribute '' @
                  apostrophe @ key @ apostrophe)))"

section \<open>The external store and the component\<close>

text \<open>
  Handles of the database SDK. Each carries an identity and the truth value Python gives
  the object, which is what \<open>if not self.client\<close> and \<open>if not collection\<close> test.
\<close>

datatype Client = Client (client_ident: nat) (client_bool: bool)

datatype Collection = Collection (collection_ident: nat) (collection_bool: bool)

definition not_client :: "Client option \<Rightarrow> bool" where
  "not_client c = (case c of None \<Rightarrow> True | Some cl \<Rightarrow> \<not> client_bool cl)"

definition not_collection :: "Collection option \<Rightarrow> bool" where
  "not_collection c = (case c of None \<Rightarrow> True | Some co \<Rightarrow> \<not> collection_bool co)"

text \<open>
  What the code calls but does not define, taken as parameters: the constructor
  \<open>AstraDB(token=..., api_endpoint=...)\<close>, the lookup \<open>client.collection(name)\<close>
  (\<open>None\<close> is Python's \<open>None\<close>), the inherited \<open>_search_documents(vector_store)\<close> and
  \<open>collection.delete_many(filter)\<close> with the store's reply. Each either raises or returns.
\<close>

record Env =
  AstraDB :: "string \<Rightarrow> string \<Rightarrow> exn + Client"
  collection :: "Client \<Rightarrow> string \<Rightarrow> exn + Collection option"
  search_documents_base :: "nat option \<Rightarrow> exn + Document list"
  delete_many :: "Collection \<Rightarrow> pyval \<Rightarrow> exn + pyval"

text \<open>The external calls of a run, in the order they are made.\<close>

datatype call =
    New_AstraDB string string
  | Get_Collection Client string
  | Search_Documents "nat option"
  | Delete_Many Collection pyval

text \<open>A line handed to \<open>self.log\<close>, by the value interpolated into it.\<close>

datatype log_line = Converted nat | Deleted pyval

text \<open>
  The component instance: the cached client (the class attribute starts as \<open>None\<close>),
  the inputs the engine configures, the status field and the log. \<open>issued\<close> is not a
  field of the class: it records the external calls made so far.
\<close>

record Component =
  client :: "Client option"
  token :: string
  api_endpoint :: string
  collection_name :: string
  advanced_search_filter :: pyval
  status :: "Data list"
  logs :: "log_line list"
  issued :: "call list"

section \<open>The methods\<close>

definition initialize_client ::
  "Env \<Rightarrow> string \<Rightarrow> string \<Rightarrow> Component \<Rightarrow> (exn + unit) \<times> Component" where
  "initialize_client env tok ep self =
     (let self1 = self\<lparr>issued := issued self @ [New_AstraDB tok ep]\<rparr> in
      case AstraDB env tok ep of
        Inl e \<Rightarrow> (Inl e, self1)
      | Inr c \<Rightarrow> (Inr (), self1\<lparr>client := Some c\<rparr>))"

definition create_result_dict :: "int \<Rightarrow> bool \<Rightarrow> string \<Rightarrow> pyval \<Rightarrow> Data list" where
  "create_result_dict deleted_count success message dataframe =
     [\<lparr>data = [(''deleted_count'', PInt deleted_count),
               (''success'', PBool success),
               (''message'', PStr message),
               (''dataframe'', dataframe)],
       text_key = ''message''\<rparr>]"

text \<open>
  \<open>__from_document\<close>: \<open>data = document.metadata\<close> binds the document's own mapping, so
  the two assignments write into the document. The result is the document as it is
  afterwards and the record built from that mapping.
\<close>

definition from_document :: "Document \<Rightarrow> Document \<times> Data" where
  "from_document document =
     (let data0 = metadata document;
          data1 = AList.update ''text'' (PStr (page_content document)) data0;
          data2 = AList.update ''id'' (doc_id document) data1
      in (document\<lparr>metadata := data2\<rparr>, \<lparr>data = data2, text_key = ''text''\<rparr>))"

definition docs_to_data :: "Document list \<Rightarrow> Document list \<times> Data list" where
  "docs_to_data documents =
     (map (\<lambda>document. fst (from_document document)) documents,
      map (\<lambda>document. snd (from_document document)) documents)"

definition search_documents ::
  "Env \<Rightarrow> nat option \<Rightarrow> Component \<Rightarrow> (exn + Data list) \<times> Component" where
  "search_documents env vector_store self =
     (let self1 = self\<lparr>issued := issued self @ [Search_Documents vector_store]\<rparr> in
      case search_documents_base env vector_store of
        Inl e \<Rightarrow> (Inl e, self1)
      | Inr docs \<Rightarrow>
          (let dat = snd (docs_to_data docs);
               self2 = self1\<lparr>logs := logs self1 @ [Converted (length dat)]\<rparr>;
               self3 = self2\<lparr>status := dat\<rparr>
           in (Inr dat, self3)))"

text \<open>The comprehension \<open>[doc.id for doc in documents]\<close>; the first failing read ends it.\<close>

fun ids_of :: "Data list \<Rightarrow> exn + pyval list" where
  "ids_of [] = Inr []"
| "ids_of (doc # docs) =
     (case getattr_Data doc ''id'' of
        Inl e \<Rightarrow> Inl e
      | Inr i \<Rightarrow> (case ids_of docs of Inl e \<Rightarrow> Inl e | Inr ids \<Rightarrow> Inr (i # ids)))"

definition build_filter :: "Component \<Rightarrow> Data list \<Rightarrow> exn + pyval" where
  "build_filter self documents =
     (if truthy (advanced_search_filter self) then Inr (advanced_search_filter self)
      else
        (case ids_of documents of
           Inl e \<Rightarrow> Inl e
         | Inr ids \<Rightarrow> Inr (PDict [(''_id'', PDict [(''$in'', PList ids)])])))"

text \<open>
  The \<open>try\<close> block of \<open>delete_records\<close>, in the order of its statements. Lines 47 to 51:
  build the client when \<open>not self.client\<close>, then test the field again; what comes out
  is the client that line 53 reads.
\<close>

definition ensure_client :: "Env \<Rightarrow> Component \<Rightarrow> (exn + Client) \<times> Component" where
  "ensure_client env self =
     (case (if not_client (client self)
            then initialize_client env (token self) (api_endpoint self) self
            else (Inr (), self)) of
        (Inl e, self1) \<Rightarrow> (Inl e, self1)
      | (Inr u, self1) \<Rightarrow>
          (case client self1 of
             None \<Rightarrow> (Inl (Exn ''Exception'' ''Failed to initialize AstraDB client''), self1)
           | Some cl \<Rightarrow>
               if \<not> client_bool cl
               then (Inl (Exn ''Exception'' ''Failed to initialize AstraDB client''), self1)
               else (Inr cl, self1)))"

text \<open>Lines 53 to 55: look the collection up and raise when \<open>not collection\<close>.\<close>

definition lookup_collection ::
  "Env \<Rightarrow> Client \<Rightarrow> Component \<Rightarrow> (exn + Collection) \<times> Component" where
  "lookup_collection env cl self =
     (let self1 = self\<lparr>issued := issued self @ [Get_Collection cl (collection_name self)]\<rparr> in
      case collection env cl (collection_name self) of
        Inl e \<Rightarrow> (Inl e, self1)
      | Inr co \<Rightarrow>
          (case co of
             None \<Rightarrow>
               (Inl (Exn ''Exception'' (''Collection '' @ collection_name self1 @ '' not found'')),
                self1)
           | Some coll \<Rightarrow>
               if \<not> collection_bool coll
               then (Inl (Exn ''Exception''
                            (''Collection '' @ collection_name self1 @ '' not found'')),
                     self1)
               else (Inr coll, self1)))"

text \<open>
  Lines 59 to 63: build the filter, call \<open>delete_many\<close>, log the count read from the
  reply, return the first five records.
\<close>

definition delete_found ::
  "Env \<Rightarrow> Collection \<Rightarrow> Data list \<Rightarrow> Component \<Rightarrow> (exn + Data list) \<times> Component" where
  "delete_found env coll documents self =
     (case build_filter self documents of
        Inl e \<Rightarrow> (Inl e, self)
      | Inr flt \<Rightarrow>
          (let self1 = self\<lparr>issued := issued self @ [Delete_Many coll flt]\<rparr> in
           case delete_many env coll flt of
             Inl e \<Rightarrow> (Inl e, self1)
           | Inr result \<Rightarrow>
               (case getitem result ''status'' of
                  Inl e \<Rightarrow> (Inl e, self1)
                | Inr st \<Rightarrow>
                    (case getitem st ''deletedCount'' of
                       Inl e \<Rightarrow> (Inl e, self1)
                     | Inr n \<Rightarrow>
                         (Inr (take 5 documents),
                          self1\<lparr>logs := logs self1 @ [Deleted n]\<rparr>)))))"

text \<open>Lines 47 to 63 in sequence; the first exception ends the block.\<close>

definition delete_records_try :: "Env \<Rightarrow> Component \<Rightarrow> (exn + Data list) \<times> Component" where
  "delete_records_try env self =
     (case ensure_client env self of
        (Inl e, self1) \<Rightarrow> (Inl e, self1)
      | (Inr cl, self1) \<Rightarrow>
          (case lookup_collection env cl self1 of
             (Inl e, self2) \<Rightarrow> (Inl e, self2)
           | (Inr coll, self2) \<Rightarrow>
               (case search_documents env None self2 of
                  (Inl e, self3) \<Rightarrow> (Inl e, self3)
                | (Inr documents, self3) \<Rightarrow> delete_found env coll documents self3)))"

text \<open>
  \<open>delete_records\<close>: the \<open>try\<close> block under its handler \<open>except Exception as e\<close>
  (line 65). The handler takes what is an instance of \<open>Exception\<close>; anything else raised
  in the block leaves the method. The result is \<open>Inl\<close> when an exception leaves the method
  and \<open>Inr\<close> when it returns.
\<close>

definition delete_records :: "Env \<Rightarrow> Component \<Rightarrow> (exn + Data list) \<times> Component" where
  "delete_records env self =
     (case delete_records_try env self of
        (Inr r, self1) \<Rightarrow> (Inr r, self1)
      | (Inl e, self1) \<Rightarrow>
          if is_Exception e
          then
            (let error_message = ''Failed to delete records: '' @ exn_str e in
             (Inr (create_result_dict 0 False error_message PNone), self1))
          else (Inl e, self1))"

section \<open>What a run did\<close>

text \<open>
  The bulk deletes and the client constructions among a list of calls, and the calls a
  run added to the record.
\<close>

fun delete_calls :: "call list \<Rightarrow> (Collection \<times> pyval) list" where
  "delete_calls [] = []"
| "delete_calls (Delete_Many c f # cs) = (c, f) # delete_calls cs"
| "delete_calls (New_AstraDB t e # cs) = delete_calls cs"
| "delete_calls (Get_Collection c n # cs) = delete_calls cs"
| "delete_calls (Search_Documents v # cs) = delete_calls cs"

fun constructor_calls :: "call list \<Rightarrow> (string \<times> string) list" where
  "constructor_calls [] = []"
| "constructor_calls (New_AstraDB t e # cs) = (t, e) # constructor_calls cs"
| "constructor_calls (Delete_Many c f # cs) = constructor_calls cs"
| "constructor_calls (Get_Collection c n # cs) = constructor_calls cs"
| "constructor_calls (Search_Documents v # cs) = constructor_calls cs"

definition calls_made :: "Component \<Rightarrow> Component \<Rightarrow> call list" where
  "calls_made before after = drop (length (issued before)) (issued after)"

text \<open>
  The client a run works with, when step 1 succeeds: the cached one when it is truthy,
  otherwise the one the constructor returns, when it returns a truthy one. And the
  collection a run works with, when the lookup returns a truthy one.
\<close>

definition client_used :: "Env \<Rightarrow> Component \<Rightarrow> Client option" where
  "client_used env self =
     (if not_client (client self)
      then (case AstraDB env (token self) (api_endpoint self) of
              Inl e \<Rightarrow> None
            | Inr c \<Rightarrow> if client_bool c then Some c else None)
      else client self)"

definition collection_used :: "Env \<Rightarrow> Component \<Rightarrow> Collection option" where
  "collection_used env self =
     (case client_used env self of
        None \<Rightarrow> None
      | Some cl \<Rightarrow>
          (case collection env cl (collection_name self) of
             Inl e \<Rightarrow> None
           | Inr co \<Rightarrow> if not_collection co then None else co))"

text \<open>The failure record of the handler, for the text of the exception caught.\<close>

definition failure_record :: "string \<Rightarrow> Data" where
  "failure_record text =
     \<lparr>data = [(''deleted_count'', PInt 0),
               (''success'', PBool False),
               (''message'', PStr (''Failed to delete records: '' @ text)),
               (''dataframe'', PNone)],
       text_key = ''message''\<rparr>"

text \<open>
  The constructor call of a run, when it makes one, and the client field after a run.
\<close>

definition construction :: "Component \<Rightarrow> call list" where
  "construction self =
     (if not_client (client self) then [New_AstraDB (token self) (api_endpoint self)] else [])"

definition client_after :: "Env \<Rightarrow> Component \<Rightarrow> Client option" where
  "client_after env self =
     (if not_client (client self)
      then (case AstraDB env (token self) (api_endpoint self) of
              Inl e \<Rightarrow> client self | Inr c \<Rightarrow> Some c)
      else client self)"

section \<open>Concrete runs\<close>

text \<open>
  Six documents, a store that answers every call, a component with no client yet and no
  filter, a document whose metadata already has a \<open>text\<close> entry, and three stores that
  fail: the bulk delete raises, the constructor raises, the collection lookup returns
  \<open>None\<close>.
\<close>

definition mk_doc :: "string \<Rightarrow> Document" where
  "mk_doc s = \<lparr>metadata = [(''source'', PStr ''notes.txt'')], page_content = s, doc_id = PStr s\<rparr>"

definition demo_docs :: "Document list" where
  "demo_docs = map mk_doc [''d1'', ''d2'', ''d3'', ''d4'', ''d5'', ''d6'']"

definition demo_env :: Env where
  "demo_env =
     \<lparr>AstraDB = (\<lambda>tok ep. Inr (Client 1 True)),
      collection = (\<lambda>cl name. Inr (Some (Collection 7 True))),
      search_documents_base = (\<lambda>vs. Inr demo_docs),
      delete_many = (\<lambda>coll flt. Inr (PDict [(''status'', PDict [(''deletedCount'', PInt 6)])]))\<rparr>"

definition demo_self :: Component where
  "demo_self =
     \<lparr>client = None, token = ''secret'', api_endpoint = ''https://db.example'',
      collection_name = ''books'', advanced_search_filter = PNone,
      status = [], logs = [], issued = []\<rparr>"

definition stale_document :: Document where
  "stale_document =
     \<lparr>metadata = [(''text'', PStr ''stale''), (''page'', PInt 3)],
      page_content = ''fresh'', doc_id = PStr ''d9''\<rparr>"

definition failing_delete_env :: Env where
  "failing_delete_env =
     demo_env\<lparr>delete_many := (\<lambda>coll flt. Inl (Exn ''DataAPIException'' ''request timed out''))\<rparr>"

definition failing_client_env :: Env where
  "failing_client_env =
     demo_env\<lparr>AstraDB := (\<lambda>tok ep. Inl (Exn ''ValueError'' ''invalid token''))\<rparr>"

definition missing_collection_env :: Env where
  "missing_collection_env = demo_env\<lparr>collection := (\<lambda>cl name. Inr None)\<rparr>"

text \<open>
  Stores whose collection lookup and whose search raise, a store whose bulk delete is
  interrupted from the keyboard (the text of a \<open>KeyboardInterrupt\<close> is empty), a store
  whose reply to the bulk delete has no \<open>status\<close> entry, and a record with no \<open>id\<close>
  entry.
\<close>

definition raising_lookup_env :: Env where
  "raising_lookup_env =
     demo_env\<lparr>collection := (\<lambda>cl name. Inl (Exn ''ConnectionError'' ''endpoint unreachable''))\<rparr>"

definition raising_search_env :: Env where
  "raising_search_env =
     demo_env\<lparr>search_documents_base := (\<lambda>vs. Inl (Exn ''ValueError'' ''no embedding model''))\<rparr>"

definition interrupted_delete_env :: Env where
  "interrupted_delete_env =
     demo_env\<lparr>delete_many := (\<lambda>coll flt. Inl (Signal ''KeyboardInterrupt'' []))\<rparr>"

definition silent_reply_env :: Env where
  "silent_reply_env = demo_env\<lparr>delete_many := (\<lambda>coll flt. Inr (PDict []))\<rparr>"

definition record_without_id :: Data where
  "record_without_id = \<lparr>data = [(''text'', PStr ''orphan'')], text_key = ''text''\<rparr>"

section \<open>Conversion and filter\<close>

lemma from_document_data:
  "map_of (data (snd (from_document d))) =
     (map_of (metadata d))(''text'' \<mapsto> PStr (page_content d), ''id'' \<mapsto> doc_id d)"
  by (simp add: from_document_def Let_def update_conv')

lemma ids_of_converted: "ids_of (snd (docs_to_data docs)) = Inr (map doc_id docs)"
  by (induction docs) (simp_all add: docs_to_data_def getattr_Data_def from_document_data)

lemma delete_calls_append: "delete_calls (xs @ ys) = delete_calls xs @ delete_calls ys"
  by (induction xs rule: delete_calls.induct) simp_all

lemma constructor_calls_append:
  "constructor_calls (xs @ ys) = constructor_calls xs @ constructor_calls ys"
  by (induction xs rule: constructor_calls.induct) simp_all

lemma build_filter_frame:
  "advanced_search_filter s' = advanced_search_filter s \<Longrightarrow> build_filter s' d = build_filter s d"
  by (simp add: build_filter_def)

section \<open>The steps of the try block\<close>

lemma ensure_client_state:
  assumes "ensure_client env self = (r, s1)"
  shows "issued s1 = issued self @
           (if not_client (client self) then [New_AstraDB (token self) (api_endpoint self)] else [])"
    and "collection_name s1 = collection_name self"
    and "advanced_search_filter s1 = advanced_search_filter self"
    and "client s1 =
           (if not_client (client self)
            then (case AstraDB env (token self) (api_endpoint self) of
                    Inl e \<Rightarrow> client self | Inr c \<Rightarrow> Some c)
            else client self)"
  using assms
  by (auto simp: ensure_client_def initialize_client_def Let_def
      split: if_splits sum.splits option.splits)

lemma ensure_client_result:
  assumes "ensure_client env self = (r, s1)"
  shows "(r = Inr cl) = (client_used env self = Some cl)"
  using assms
  by (auto simp: ensure_client_def initialize_client_def Let_def client_used_def not_client_def
      split: if_splits sum.splits option.splits)

lemma ensure_client_raises:
  assumes "ensure_client env self = (r, s1)" and "not_client (client self)"
    and "AstraDB env (token self) (api_endpoint self) = Inl e"
  shows "r = Inl e"
  using assms
  by (auto simp: ensure_client_def initialize_client_def Let_def)

lemma lookup_collection_state:
  assumes "lookup_collection env cl s = (r, s1)"
  shows "issued s1 = issued s @ [Get_Collection cl (collection_name s)]"
    and "collection_name s1 = collection_name s"
    and "advanced_search_filter s1 = advanced_search_filter s"
    and "client s1 = client s"
  using assms
  by (auto simp: lookup_collection_def Let_def split: if_splits sum.splits option.splits)

lemma lookup_collection_result:
  assumes "lookup_collection env cl s = (r, s1)"
  shows "(r = Inr coll) =
         (collection env cl (collection_name s) = Inr (Some coll) \<and> collection_bool coll)"
  using assms
  by (auto simp: lookup_collection_def Let_def split: if_splits sum.splits option.splits)

lemma lookup_collection_missing:
  assumes "lookup_collection env cl s = (r, s1)"
    and "collection env cl (collection_name s) = Inr co" and "not_collection co"
  shows "r = Inl (Exn ''Exception'' (''Collection '' @ collection_name s @ '' not found''))"
  using assms
  by (auto simp: lookup_collection_def Let_def not_collection_def
      split: if_splits sum.splits option.splits)

lemma search_documents_state:
  assumes "search_documents env v s = (r, s1)"
  shows "issued s1 = issued s @ [Search_Documents v]"
    and "collection_name s1 = collection_name s"
    and "advanced_search_filter s1 = advanced_search_filter s"
    and "client s1 = client s"
  using assms
  by (auto simp: search_documents_def Let_def split: sum.splits)

lemma search_documents_result:
  assumes "search_documents env v s = (r, s1)"
  shows "(r = Inl e) = (search_documents_base env v = Inl e)"
    and "(r = Inr d) =
         (\<exists>docs. search_documents_base env v = Inr docs \<and> d = snd (docs_to_data docs))"
  using assms
  by (auto simp: search_documents_def Let_def split: sum.splits)

lemma delete_found_state:
  assumes "delete_found env coll documents s = (r, s1)"
  shows "issued s1 = issued s @
           (case build_filter s documents of Inl e \<Rightarrow> [] | Inr flt \<Rightarrow> [Delete_Many coll flt])"
    and "client s1 = client s"
  using assms
  by (auto simp: delete_found_def Let_def split: sum.splits)

lemma delete_found_result:
  assumes "build_filter s documents = Inr flt"
    and "delete_many env coll flt = Inr result"
    and "getitem result ''status'' = Inr st"
    and "getitem st ''deletedCount'' = Inr n"
  shows "fst (delete_found env coll documents s) = Inr (take 5 documents)"
  using assms by (simp add: delete_found_def Let_def)

section \<open>The ways a run can go\<close>

lemma try_cases:
  obtains (no_client) e s1 where "ensure_client env self = (Inl e, s1)"
      "delete_records_try env self = (Inl e, s1)"
  | (no_collection) cl s1 e s2 where "ensure_client env self = (Inr cl, s1)"
      "lookup_collection env cl s1 = (Inl e, s2)"
      "delete_records_try env self = (Inl e, s2)"
  | (no_search) cl s1 coll s2 e s3 where "ensure_client env self = (Inr cl, s1)"
      "lookup_collection env cl s1 = (Inr coll, s2)"
      "search_documents env None s2 = (Inl e, s3)"
      "delete_records_try env self = (Inl e, s3)"
  | (found) cl s1 coll s2 documents s3 where "ensure_client env self = (Inr cl, s1)"
      "lookup_collection env cl s1 = (Inr coll, s2)"
      "search_documents env None s2 = (Inr documents, s3)"
      "delete_records_try env self = delete_found env coll documents s3"
proof (cases "ensure_client env self")
  case p1: (Pair r1 s1)
  show ?thesis
  proof (cases r1)
    case (Inl e)
    with p1 show ?thesis by (intro no_client[of e s1]) (simp_all add: delete_records_try_def)
  next
    case r1: (Inr cl)
    show ?thesis
    proof (cases "lookup_collection env cl s1")
      case p2: (Pair r2 s2)
      show ?thesis
      proof (cases r2)
        case (Inl e)
        with p1 r1 p2 show ?thesis
          by (intro no_collection[of cl s1 e s2]) (simp_all add: delete_records_try_def)
      next
        case r2: (Inr coll)
        show ?thesis
        proof (cases "search_documents env None s2")
          case p3: (Pair r3 s3)
          show ?thesis
          proof (cases r3)
            case (Inl e)
            with p1 r1 p2 r2 p3 show ?thesis
              by (intro no_search[of cl s1 coll s2 e s3]) (simp_all add: delete_records_try_def)
          next
            case (Inr documents)
            with p1 r1 p2 r2 p3 show ?thesis
              by (intro found[of cl s1 coll s2 documents s3])
                (simp_all add: delete_records_try_def)
          qed
        qed
      qed
    qed
  qed
qed

lemma delete_records_state: "snd (delete_records env self) = snd (delete_records_try env self)"
  by (simp add: delete_records_def split: prod.splits sum.splits)

lemma collection_used_Some:
  assumes "client_used env self = Some cl"
    and "collection env cl (collection_name self) = Inr (Some coll)" and "collection_bool coll"
  shows "collection_used env self = Some coll"
  using assms by (simp add: collection_used_def not_collection_def)

lemma collection_used_None:
  assumes "client_used env self = Some cl"
    and "\<And>coll. \<not> (collection env cl (collection_name self) = Inr (Some coll) \<and> collection_bool coll)"
  shows "collection_used env self = None"
proof (cases "collection env cl (collection_name self)")
  case (Inl e)
  with assms(1) show ?thesis by (simp add: collection_used_def)
next
  case (Inr co)
  show ?thesis
  proof (cases co)
    case None
    with Inr assms(1) show ?thesis by (simp add: collection_used_def not_collection_def)
  next
    case (Some coll)
    with Inr assms(2)[of coll] have "\<not> collection_bool coll" by simp
    with Some Inr assms(1) show ?thesis by (simp add: collection_used_def not_collection_def)
  qed
qed

lemma run_cases:
  obtains
    (no_client) e s1 where
      "delete_records_try env self = (Inl e, s1)"
      "client_used env self = None"
      "issued s1 = issued self @ construction self"
      "client s1 = client_after env self"
  | (no_collection) cl e s2 where
      "delete_records_try env self = (Inl e, s2)"
      "client_used env self = Some cl"
      "collection_used env self = None"
      "issued s2 = issued self @ construction self @ [Get_Collection cl (collection_name self)]"
      "client s2 = client_after env self"
  | (no_search) cl coll e s3 where
      "delete_records_try env self = (Inl e, s3)"
      "collection_used env self = Some coll"
      "search_documents_base env None = Inl e"
      "issued s3 = issued self @ construction self @
         [Get_Collection cl (collection_name self), Search_Documents None]"
      "client s3 = client_after env self"
  | (found) cl coll docs s3 where
      "delete_records_try env self = delete_found env coll (snd (docs_to_data docs)) s3"
      "collection_used env self = Some coll"
      "search_documents_base env None = Inr docs"
      "issued s3 = issued self @ construction self @
         [Get_Collection cl (collection_name self), Search_Documents None]"
      "client s3 = client_after env self"
      "advanced_search_filter s3 = advanced_search_filter self"
proof (cases rule: try_cases[of env self])
  case c: (no_client e s1)
  have "client_used env self \<noteq> Some cl" for cl
    using ensure_client_result[OF c(1), of cl] by simp
  then have "client_used env self = None"
    by (cases "client_used env self") auto
  moreover have "issued s1 = issued self @ construction self"
    using ensure_client_state(1)[OF c(1)] by (simp add: construction_def)
  moreover have "client s1 = client_after env self"
    using ensure_client_state(4)[OF c(1)] by (simp add: client_after_def)
  ultimately show ?thesis using c(2) by (rule no_client[rotated])
next
  case c: (no_collection cl s1 e s2)
  have cu: "client_used env self = Some cl"
    using ensure_client_result[OF c(1), of cl] by simp
  have nm: "collection_name s1 = collection_name self"
    by (rule ensure_client_state(2)[OF c(1)])
  have "\<not> (collection env cl (collection_name self) = Inr (Some coll) \<and> collection_bool coll)"
    for coll
    using lookup_collection_result[OF c(2), of coll] nm by simp
  then have "collection_used env self = None"
    by (rule collection_used_None[OF cu])
  moreover have "issued s2 =
      issued self @ construction self @ [Get_Collection cl (collection_name self)]"
    using ensure_client_state(1)[OF c(1)] lookup_collection_state(1)[OF c(2)] nm
    by (simp add: construction_def)
  moreover have "client s2 = client_after env self"
    using ensure_client_state(4)[OF c(1)] lookup_collection_state(4)[OF c(2)]
    by (simp add: client_after_def)
  ultimately show ?thesis using c(3) cu by (intro no_collection[of e s2 cl])
next
  case c: (no_search cl s1 coll s2 e s3)
  have cu: "client_used env self = Some cl"
    using ensure_client_result[OF c(1), of cl] by simp
  have nm: "collection_name s1 = collection_name self"
    by (rule ensure_client_state(2)[OF c(1)])
  have "collection env cl (collection_name self) = Inr (Some coll) \<and> collection_bool coll"
    using lookup_collection_result[OF c(2), of coll] nm by simp
  then have "collection_used env self = Some coll"
    using collection_used_Some[OF cu] by blast
  moreover have "search_documents_base env None = Inl e"
    using search_documents_result(1)[OF c(3), of e] by simp
  moreover have "issued s3 = issued self @ construction self @
         [Get_Collection cl (collection_name self), Search_Documents None]"
    using ensure_client_state(1)[OF c(1)] lookup_collection_state(1)[OF c(2)]
      search_documents_state(1)[OF c(3)] nm
    by (simp add: construction_def)
  moreover have "client s3 = client_after env self"
    using ensure_client_state(4)[OF c(1)] lookup_collection_state(4)[OF c(2)]
      search_documents_state(4)[OF c(3)]
    by (simp add: client_after_def)
  ultimately show ?thesis using c(4) by (intro no_search[of e s3 coll cl])
next
  case c: (found cl s1 coll s2 documents s3)
  have cu: "client_used env self = Some cl"
    using ensure_client_result[OF c(1), of cl] by simp
  have nm: "collection_name s1 = collection_name self"
    by (rule ensure_client_state(2)[OF c(1)])
  have "collection env cl (collection_name self) = Inr (Some coll) \<and> collection_bool coll"
    using lookup_collection_result[OF c(2), of coll] nm by simp
  then have co: "collection_used env self = Some coll"
    using collection_used_Some[OF cu] by blast
  obtain docs where docs: "search_documents_base env None = Inr docs"
    and dd: "documents = snd (docs_to_data docs)"
    using search_documents_result(2)[OF c(3), of documents] by auto
  have i: "issued s3 = issued self @ construction self @
         [Get_Collection cl (collection_name self), Search_Documents None]"
    using ensure_client_state(1)[OF c(1)] lookup_collection_state(1)[OF c(2)]
      search_documents_state(1)[OF c(3)] nm
    by (simp add: construction_def)
  have k: "client s3 = client_after env self"
    using ensure_client_state(4)[OF c(1)] lookup_collection_state(4)[OF c(2)]
      search_documents_state(4)[OF c(3)]
    by (simp add: client_after_def)
  have f: "advanced_search_filter s3 = advanced_search_filter self"
    using ensure_client_state(3)[OF c(1)] lookup_collection_state(3)[OF c(2)]
      search_documents_state(3)[OF c(3)]
    by simp
  have t: "delete_records_try env self = delete_found env coll (snd (docs_to_data docs)) s3"
    using c(4) dd by simp
  show ?thesis by (rule found[OF t co docs i k f])
qed

section \<open>Calls, client and result of a run\<close>

lemma delete_calls_construction [simp]: "delete_calls (construction self) = []"
  by (simp add: construction_def)

lemma constructor_calls_construction [simp]:
  "constructor_calls (construction self) =
     (if not_client (client self) then [(token self, api_endpoint self)] else [])"
  by (simp add: construction_def)

lemma calls_made_append:
  "issued s' = issued s @ ext \<Longrightarrow> calls_made s s' = ext"
  by (simp add: calls_made_def)

lemma delete_found_calls:
  assumes "issued s = issued self @ ext"
  shows "calls_made self (snd (delete_found env coll documents s)) =
           ext @ (case build_filter s documents of Inl e \<Rightarrow> [] | Inr flt \<Rightarrow> [Delete_Many coll flt])"
proof -
  obtain r4 s4 where p4: "delete_found env coll documents s = (r4, s4)"
    by (cases "delete_found env coll documents s")
  have "issued s4 = issued self @ ext @
      (case build_filter s documents of Inl e \<Rightarrow> [] | Inr flt \<Rightarrow> [Delete_Many coll flt])"
    using delete_found_state(1)[OF p4] assms by simp
  then show ?thesis using p4 by (simp add: calls_made_append)
qed

lemma delete_found_client: "client (snd (delete_found env coll documents s)) = client s"
proof -
  obtain r4 s4 where p4: "delete_found env coll documents s = (r4, s4)"
    by (cases "delete_found env coll documents s")
  then show ?thesis using delete_found_state(2)[OF p4] by simp
qed

lemma run_delete_calls:
  "delete_calls (calls_made self (snd (delete_records env self))) =
     (case collection_used env self of
        None \<Rightarrow> []
      | Some coll \<Rightarrow>
          (case search_documents_base env None of
             Inl e \<Rightarrow> []
           | Inr docs \<Rightarrow>
               (case build_filter self (snd (docs_to_data docs)) of
                  Inl e \<Rightarrow> []
                | Inr flt \<Rightarrow> [(coll, flt)])))"
proof (cases rule: run_cases[of env self])
  case (no_client e s1)
  then show ?thesis
    by (simp add: delete_records_state calls_made_append[OF no_client(3)] collection_used_def)
next
  case (no_collection cl e s2)
  then show ?thesis
    by (simp add: delete_records_state calls_made_append[OF no_collection(4)]
        delete_calls_append)
next
  case (no_search cl coll e s3)
  then show ?thesis
    by (simp add: delete_records_state calls_made_append[OF no_search(4)] delete_calls_append)
next
  case (found cl coll docs s3)
  have "build_filter s3 (snd (docs_to_data docs)) = build_filter self (snd (docs_to_data docs))"
    by (rule build_filter_frame[OF found(6)])
  then show ?thesis
    using found(1,2,3)
    by (simp add: delete_records_state delete_found_calls[OF found(4)] delete_calls_append
        split: sum.splits)
qed

lemma run_constructor_calls:
  "constructor_calls (calls_made self (snd (delete_records env self))) =
     (if not_client (client self) then [(token self, api_endpoint self)] else [])"
proof (cases rule: run_cases[of env self])
  case (no_client e s1)
  then show ?thesis
    by (simp add: delete_records_state calls_made_append[OF no_client(3)])
next
  case (no_collection cl e s2)
  then show ?thesis
    by (simp add: delete_records_state calls_made_append[OF no_collection(4)]
        constructor_calls_append)
next
  case (no_search cl coll e s3)
  then show ?thesis
    by (simp add: delete_records_state calls_made_append[OF no_search(4)]
        constructor_calls_append)
next
  case (found cl coll docs s3)
  then show ?thesis
    by (simp add: delete_records_state delete_found_calls[OF found(4)]
        constructor_calls_append split: sum.splits)
qed

lemma run_client: "client (snd (delete_records env self)) = client_after env self"
proof (cases rule: run_cases[of env self])
  case (no_client e s1)
  then show ?thesis by (simp add: delete_records_state)
next
  case (no_collection cl e s2)
  then show ?thesis by (simp add: delete_records_state)
next
  case (no_search cl coll e s3)
  then show ?thesis by (simp add: delete_records_state)
next
  case (found cl coll docs s3)
  then show ?thesis by (simp add: delete_records_state delete_found_client)
qed

lemma delete_found_fst:
  assumes "advanced_search_filter s = advanced_search_filter self"
  shows "fst (delete_found env coll documents s) = fst (delete_found env coll documents self)"
  using build_filter_frame[OF assms, of documents]
  by (simp add: delete_found_def Let_def split: sum.splits)

lemma run_result_found:
  assumes "collection_used env self = Some coll"
    and "search_documents_base env None = Inr docs"
  shows "fst (delete_records_try env self) =
         fst (delete_found env coll (snd (docs_to_data docs)) self)"
proof (cases rule: run_cases[of env self])
  case (no_client e s1)
  with assms show ?thesis by (simp add: collection_used_def)
next
  case (no_collection cl e s2)
  with assms show ?thesis by simp
next
  case (no_search cl coll e s3)
  with assms show ?thesis by simp
next
  case (found cl coll' docs' s3)
  with assms have "coll' = coll" "docs' = docs" by simp_all
  with found(1) delete_found_fst[OF found(6)] show ?thesis by simp
qed

lemma run_result_no_client:
  assumes "not_client (client self)"
    and "AstraDB env (token self) (api_endpoint self) = Inl e"
  shows "fst (delete_records_try env self) = Inl e"
proof -
  obtain r1 s1 where p1: "ensure_client env self = (r1, s1)"
    by (cases "ensure_client env self")
  have "r1 = Inl e" by (rule ensure_client_raises[OF p1 assms])
  with p1 show ?thesis by (simp add: delete_records_try_def)
qed

lemma run_result_no_collection:
  assumes "client_used env self = Some cl"
    and "collection env cl (collection_name self) = Inr co"
    and "not_collection co"
  shows "fst (delete_records_try env self) =
         Inl (Exn ''Exception'' (''Collection '' @ collection_name self @ '' not found''))"
proof -
  obtain r1 s1 where p1: "ensure_client env self = (r1, s1)"
    by (cases "ensure_client env self")
  have r1: "r1 = Inr cl" using ensure_client_result[OF p1, of cl] assms(1) by simp
  have nm: "collection_name s1 = collection_name self"
    by (rule ensure_client_state(2)[OF p1])
  obtain r2 s2 where p2: "lookup_collection env cl s1 = (r2, s2)"
    by (cases "lookup_collection env cl s1")
  have "r2 = Inl (Exn ''Exception'' (''Collection '' @ collection_name s1 @ '' not found''))"
    using lookup_collection_missing[OF p2 _ assms(3)] assms(2) nm by simp
  with p1 r1 p2 nm show ?thesis by (simp add: delete_records_try_def)
qed

lemma handler_failure:
  "fst (delete_records_try env self) = Inl e \<Longrightarrow> is_Exception e \<Longrightarrow>
   fst (delete_records env self) = Inr [failure_record (exn_str e)]"
  by (cases "delete_records_try env self")
    (simp add: delete_records_def failure_record_def create_result_dict_def)

lemma handler_raised:
  "fst (delete_records_try env self) = Inl e \<Longrightarrow>
   fst (delete_records env self) =
     (if is_Exception e
      then Inr (create_result_dict 0 False (''Failed to delete records: '' @ exn_str e) PNone)
      else Inl e)"
  by (cases "delete_records_try env self") (simp add: delete_records_def)

lemma lookup_collection_raises:
  assumes "lookup_collection env cl s = (r, s1)"
    and "collection env cl (collection_name s) = Inl e"
  shows "r = Inl e"
  using assms by (auto simp: lookup_collection_def Let_def)

lemma run_result_lookup_raises:
  assumes "client_used env self = Some cl"
    and "collection env cl (collection_name self) = Inl e"
  shows "fst (delete_records_try env self) = Inl e"
proof -
  obtain r1 s1 where p1: "ensure_client env self = (r1, s1)"
    by (cases "ensure_client env self")
  have r1: "r1 = Inr cl" using ensure_client_result[OF p1, of cl] assms(1) by simp
  have nm: "collection_name s1 = collection_name self"
    by (rule ensure_client_state(2)[OF p1])
  obtain r2 s2 where p2: "lookup_collection env cl s1 = (r2, s2)"
    by (cases "lookup_collection env cl s1")
  have "r2 = Inl e"
    using lookup_collection_raises[OF p2] assms(2) nm by simp
  with p1 r1 p2 show ?thesis by (simp add: delete_records_try_def)
qed

lemma run_result_search_raises:
  assumes "collection_used env self = Some coll"
    and "search_documents_base env None = Inl e"
  shows "fst (delete_records_try env self) = Inl e"
proof (cases rule: run_cases[of env self])
  case (no_client e' s1)
  with assms show ?thesis by (simp add: collection_used_def)
next
  case (no_collection cl e' s2)
  with assms show ?thesis by simp
next
  case (no_search cl coll' e' s3)
  with assms show ?thesis by simp
next
  case (found cl coll' docs s3)
  with assms show ?thesis by simp
qed

lemma run_result_delete_raises:
  assumes "collection_used env self = Some coll"
    and "search_documents_base env None = Inr docs"
    and "build_filter self (snd (docs_to_data docs)) = Inr flt"
    and "delete_many env coll flt = Inl e"
  shows "fst (delete_records_try env self) = Inl e"
  using run_result_found[OF assms(1,2)] assms(3,4) by (simp add: delete_found_def Let_def)

lemma delete_found_filter_raises:
  "build_filter self documents = Inl e \<Longrightarrow> fst (delete_found env coll documents self) = Inl e"
  by (simp add: delete_found_def)

lemma build_filter_converted_returns:
  "build_filter self (snd (docs_to_data docs)) \<noteq> Inl e"
  by (simp add: build_filter_def ids_of_converted)

lemma handler_leaves:
  assumes "fst (delete_records env self) = Inl e"
  shows "\<not> is_Exception e \<and> fst (delete_records_try env self) = Inl e"
proof (cases "delete_records_try env self")
  case (Pair r s1)
  show ?thesis
  proof (cases r)
    case (Inl e')
    with Pair assms show ?thesis
      by (cases "is_Exception e'") (simp_all add: delete_records_def)
  next
    case (Inr x)
    with Pair assms show ?thesis by (simp add: delete_records_def)
  qed
qed

lemma handler_success:
  "fst (delete_records_try env self) = Inr r \<Longrightarrow> fst (delete_records env self) = Inr r"
  by (cases "delete_records_try env self") (simp add: delete_records_def)

lemma build_filter_falsy:
  "\<not> truthy (advanced_search_filter self) \<Longrightarrow>
   build_filter self (snd (docs_to_data docs)) =
     Inr (PDict [(''_id'', PDict [(''$in'', PList (map doc_id docs))])])"
  by (simp add: build_filter_def ids_of_converted)

section \<open>Facts about the concrete runs\<close>

lemma demo_collection_used:
  "collection_used demo_env (demo_self\<lparr>advanced_search_filter := f\<rparr>) = Some (Collection 7 True)"
  by (simp add: collection_used_def client_used_def not_client_def not_collection_def
      demo_env_def demo_self_def)

lemma demo_collection_used_plain:
  "collection_used demo_env demo_self = Some (Collection 7 True)"
  by (simp add: collection_used_def client_used_def not_client_def not_collection_def
      demo_env_def demo_self_def)

lemma demo_search: "search_documents_base demo_env None = Inr demo_docs"
  by (simp add: demo_env_def)

lemma demo_build_filter:
  "build_filter demo_self (snd (docs_to_data demo_docs)) =
     Inr (PDict [(''_id'', PDict [(''$in'', PList (map doc_id demo_docs))])])"
  by (rule build_filter_falsy) (simp add: demo_self_def)

lemma from_document_overwrites_text:
  "data (snd (from_document stale_document)) =
     [(''text'', PStr ''fresh''), (''page'', PInt 3), (''id'', PStr ''d9'')]"
  by (simp add: from_document_def stale_document_def Let_def)

section \<open>The claims\<close>

text \<open>
  Claim C7. The record \<open>__from_document\<close> builds maps every key of the document's
  metadata, and \<open>text\<close> to the page content and \<open>id\<close> to the identifier: its mapping
  is the metadata updated at these two keys, so a \<open>text\<close> entry of the metadata is
  overwritten by the page content.
\<close>

theorem from_document_keys:
  "map_of (data (snd (from_document d))) =
     (map_of (metadata d))(''text'' \<mapsto> PStr (page_content d), ''id'' \<mapsto> doc_id d) \<and>
   fst ` set (data (snd (from_document d))) = fst ` set (metadata d) \<union> {''text'', ''id''} \<and>
   map_of (data (snd (from_document d))) ''text'' = Some (PStr (page_content d)) \<and>
   map_of (data (snd (from_document d))) ''id'' = Some (doc_id d) \<and>
   text_key (snd (from_document d)) = ''text''"
proof -
  have "fst ` set (data (snd (from_document d))) = fst ` set (metadata d) \<union> {''text'', ''id''}"
    by (auto simp: from_document_def Let_def dom_update)
  then show ?thesis
    by (simp add: from_document_data) (simp add: from_document_def Let_def)
qed

text \<open>
  Claim C8, as amended. \<open>__from_document\<close> does not copy the metadata: it writes
  \<open>text\<close> and \<open>id\<close> into the document's own mapping. Afterwards the document's metadata is
  its former metadata updated at these two keys, and it is the mapping handed to the
  record; page content and identifier are unchanged.
\<close>

theorem from_document_writes_into_source:
  "metadata (fst (from_document d)) = data (snd (from_document d)) \<and>
   map_of (metadata (fst (from_document d))) =
     (map_of (metadata d))(''text'' \<mapsto> PStr (page_content d), ''id'' \<mapsto> doc_id d) \<and>
   page_content (fst (from_document d)) = page_content d \<and>
   doc_id (fst (from_document d)) = doc_id d"
  by (simp add: from_document_def Let_def update_conv')

text \<open>
  The statement that the source document's metadata is unchanged fails on a
  document whose metadata has a \<open>text\<close> entry and no \<open>id\<close> entry: the entry is
  overwritten and an \<open>id\<close> entry is added, in the document itself.
\<close>

theorem from_document_changes_source_counterexample:
  "metadata (fst (from_document stale_document)) \<noteq> metadata stale_document \<and>
   metadata stale_document = [(''text'', PStr ''stale''), (''page'', PInt 3)] \<and>
   metadata (fst (from_document stale_document)) =
     [(''text'', PStr ''fresh''), (''page'', PInt 3), (''id'', PStr ''d9'')]"
  by (simp add: from_document_def stale_document_def Let_def)

text \<open>
  Claim C10. A configured filter that is falsy (an empty mapping, for one) is
  ignored: \<open>__build_filter\<close> returns what it returns with no filter configured, the
  identifier filter built from the matched documents.
\<close>

theorem falsy_filter_is_ignored:
  assumes "\<not> truthy (advanced_search_filter self)"
  shows "build_filter self documents =
           build_filter (self\<lparr>advanced_search_filter := PNone\<rparr>) documents \<and>
         build_filter self (snd (docs_to_data docs)) =
           Inr (PDict [(''_id'', PDict [(''$in'', PList (map doc_id docs))])])"
  using assms build_filter_falsy[OF assms, of docs] by (simp add: build_filter_def)

theorem falsy_filter_is_ignored_witness:
  "\<not> truthy (PDict []) \<and>
   build_filter (demo_self\<lparr>advanced_search_filter := PDict []\<rparr>) (snd (docs_to_data demo_docs)) =
     build_filter (demo_self\<lparr>advanced_search_filter := PNone\<rparr>) (snd (docs_to_data demo_docs)) \<and>
   build_filter (demo_self\<lparr>advanced_search_filter := PDict []\<rparr>) (snd (docs_to_data demo_docs)) =
     Inr (PDict [(''_id'', PDict [(''$in'',
       PList [PStr ''d1'', PStr ''d2'', PStr ''d3'', PStr ''d4'', PStr ''d5'', PStr ''d6''])])])"
proof -
  have f: "\<not> truthy (advanced_search_filter (demo_self\<lparr>advanced_search_filter := PDict []\<rparr>))"
    by simp
  have m: "map doc_id demo_docs =
      [PStr ''d1'', PStr ''d2'', PStr ''d3'', PStr ''d4'', PStr ''d5'', PStr ''d6'']"
    by (simp add: demo_docs_def mk_doc_def)
  have t: "\<not> truthy (PDict [])" by simp
  note w = falsy_filter_is_ignored[OF f, of "snd (docs_to_data demo_docs)" demo_docs]
  have 1: "build_filter (demo_self\<lparr>advanced_search_filter := PDict []\<rparr>)
             (snd (docs_to_data demo_docs)) =
           build_filter (demo_self\<lparr>advanced_search_filter := PNone\<rparr>)
             (snd (docs_to_data demo_docs))"
    using w[THEN conjunct1] by simp
  have 2: "build_filter (demo_self\<lparr>advanced_search_filter := PDict []\<rparr>)
             (snd (docs_to_data demo_docs)) =
           Inr (PDict [(''_id'', PDict [(''$in'',
             PList [PStr ''d1'', PStr ''d2'', PStr ''d3'', PStr ''d4'', PStr ''d5'', PStr ''d6''])])])"
    using w[THEN conjunct2] unfolding m .
  show ?thesis using t 1 2 by blast
qed

text \<open>
  Claim C1. With a truthy advanced search filter configured, every bulk delete that
  \<open>delete_records\<close> issues carries exactly that filter, whatever documents the search
  returned: the run issues one \<open>delete_many\<close>, with the configured filter, when the client,
  the collection lookup and the search succeed, and none otherwise.
\<close>

theorem delete_many_gets_configured_filter:
  assumes "truthy (advanced_search_filter self)"
  shows "delete_calls (calls_made self (snd (delete_records env self))) =
           (case collection_used env self of
              None \<Rightarrow> []
            | Some coll \<Rightarrow>
                (case search_documents_base env None of
                   Inl e \<Rightarrow> []
                 | Inr docs \<Rightarrow> [(coll, advanced_search_filter self)]))"
  using assms
  by (simp add: run_delete_calls build_filter_def split: option.splits sum.splits)

theorem delete_many_gets_configured_filter_witness:
  "truthy (PDict [(''genre'', PStr ''poetry'')]) \<and>
   delete_calls (calls_made (demo_self\<lparr>advanced_search_filter := PDict [(''genre'', PStr ''poetry'')]\<rparr>)
     (snd (delete_records demo_env
        (demo_self\<lparr>advanced_search_filter := PDict [(''genre'', PStr ''poetry'')]\<rparr>)))) =
     [(Collection 7 True, PDict [(''genre'', PStr ''poetry'')])]"
proof -
  have t: "truthy (advanced_search_filter
             (demo_self\<lparr>advanced_search_filter := PDict [(''genre'', PStr ''poetry'')]\<rparr>))"
    by simp
  show ?thesis
    using delete_many_gets_configured_filter[OF t, of demo_env]
    by (simp add: demo_collection_used demo_search)
qed

text \<open>
  Claim C2. With no advanced filter configured and the search returning documents with
  identifiers \<open>i1 .. iN\<close>, the bulk delete is issued with the filter
  \<open>{"_id": {"$in": [i1, ..., iN]}}\<close>; the identifiers are those read from the converted
  records, in the order of the search results.
\<close>

theorem delete_many_gets_id_filter:
  assumes "advanced_search_filter self = PNone"
    and "collection_used env self = Some coll"
    and "search_documents_base env None = Inr docs"
  shows "delete_calls (calls_made self (snd (delete_records env self))) =
           [(coll, PDict [(''_id'', PDict [(''$in'', PList (map doc_id docs))])])] \<and>
         ids_of (snd (docs_to_data docs)) = Inr (map doc_id docs)"
proof -
  have "\<not> truthy (advanced_search_filter self)" using assms(1) by simp
  then show ?thesis
    using assms(2,3) by (simp add: run_delete_calls build_filter_falsy ids_of_converted)
qed

theorem delete_many_gets_id_filter_witness:
  "advanced_search_filter demo_self = PNone \<and>
   collection_used demo_env demo_self = Some (Collection 7 True) \<and>
   search_documents_base demo_env None = Inr demo_docs \<and>
   delete_calls (calls_made demo_self (snd (delete_records demo_env demo_self))) =
     [(Collection 7 True,
       PDict [(''_id'', PDict [(''$in'',
         PList [PStr ''d1'', PStr ''d2'', PStr ''d3'', PStr ''d4'', PStr ''d5'', PStr ''d6''])])])]"
proof -
  have a: "advanced_search_filter demo_self = PNone" by (simp add: demo_self_def)
  show ?thesis
    using delete_many_gets_id_filter[OF a demo_collection_used_plain demo_search]
      a demo_collection_used_plain demo_search
    by (simp add: demo_docs_def mk_doc_def)
qed

text \<open>
  Claim C4. When the client, the lookup, the search, the filter, the delete and the
  read of the deleted count all succeed and the search returned \<open>N\<close> documents,
  \<open>delete_records\<close> returns the first \<open>min 5 N\<close> converted records, in order.
\<close>

theorem returns_first_five_records:
  assumes "collection_used env self = Some coll"
    and "search_documents_base env None = Inr docs"
    and "build_filter self (snd (docs_to_data docs)) = Inr flt"
    and "delete_many env coll flt = Inr result"
    and "getitem result ''status'' = Inr st"
    and "getitem st ''deletedCount'' = Inr n"
  shows "fst (delete_records env self) = Inr (take 5 (snd (docs_to_data docs))) \<and>
         length (take 5 (snd (docs_to_data docs))) = min 5 (length docs)"
proof -
  have "fst (delete_records_try env self) = Inr (take 5 (snd (docs_to_data docs)))"
    using run_result_found[OF assms(1,2)] delete_found_result[OF assms(3-6)] by simp
  then have "fst (delete_records env self) = Inr (take 5 (snd (docs_to_data docs)))"
    by (rule handler_success)
  moreover have "length (take 5 (snd (docs_to_data docs))) = min 5 (length docs)"
    by (simp add: docs_to_data_def min.commute)
  ultimately show ?thesis by simp
qed

theorem returns_first_five_records_witness:
  "length demo_docs = 6 \<and>
   fst (delete_records demo_env demo_self) = Inr (take 5 (snd (docs_to_data demo_docs))) \<and>
   length (take 5 (snd (docs_to_data demo_docs))) = 5 \<and>
   map (\<lambda>r. map_of (data r) ''id'') (take 5 (snd (docs_to_data demo_docs))) =
     [Some (PStr ''d1''), Some (PStr ''d2''), Some (PStr ''d3''), Some (PStr ''d4''),
      Some (PStr ''d5'')]"
proof -
  have dm: "delete_many demo_env (Collection 7 True)
              (PDict [(''_id'', PDict [(''$in'', PList (map doc_id demo_docs))])]) =
            Inr (PDict [(''status'', PDict [(''deletedCount'', PInt 6)])])"
    by (simp add: demo_env_def)
  have g1: "getitem (PDict [(''status'', PDict [(''deletedCount'', PInt 6)])]) ''status'' =
            Inr (PDict [(''deletedCount'', PInt 6)])"
    by simp
  have g2: "getitem (PDict [(''deletedCount'', PInt 6)]) ''deletedCount'' = Inr (PInt 6)"
    by simp
  have len: "length demo_docs = 6" by (simp add: demo_docs_def)
  have ids: "map (\<lambda>r. map_of (data r) ''id'') (take 5 (snd (docs_to_data demo_docs))) =
     [Some (PStr ''d1''), Some (PStr ''d2''), Some (PStr ''d3''), Some (PStr ''d4''),
      Some (PStr ''d5'')]"
    by (simp add: demo_docs_def mk_doc_def docs_to_data_def from_document_def Let_def)
  show ?thesis
    using returns_first_five_records[OF demo_collection_used_plain demo_search
        demo_build_filter dm g1 g2] len ids
    by simp
qed

text \<open>
  Claim C3, as amended. \<open>delete_records\<close> lets no instance of \<open>Exception\<close> reach its
  caller. When the client construction, the collection lookup, the search or the bulk
  delete raises \<open>e\<close>, or the \<open>try\<close> block raises \<open>e\<close> in any other place, and \<open>e\<close> is
  an instance of \<open>Exception\<close>, the method returns the one-element list holding the failure
  record with \<open>deleted_count\<close> 0, \<open>success\<close> false and the message
  \<open>Failed to delete records: \<close> followed by \<open>str(e)\<close>; the record depends on the text of
  \<open>e\<close> only, so the cause is not told apart. Filter building raises nothing on converted
  search results, and an exception it raises on other records is one the \<open>try\<close> block
  raises. What is not an instance of \<open>Exception\<close> is not caught: it leaves the method.
\<close>

theorem delete_records_catches_Exception:
  "(not_client (client self) \<and> AstraDB env (token self) (api_endpoint self) = Inl e \<longrightarrow>
      fst (delete_records env self) =
        (if is_Exception e
         then Inr (create_result_dict 0 False (''Failed to delete records: '' @ exn_str e) PNone)
         else Inl e)) \<and>
   (client_used env self = Some cl \<and> collection env cl (collection_name self) = Inl e \<longrightarrow>
      fst (delete_records env self) =
        (if is_Exception e
         then Inr (create_result_dict 0 False (''Failed to delete records: '' @ exn_str e) PNone)
         else Inl e)) \<and>
   (collection_used env self = Some coll \<and> search_documents_base env None = Inl e \<longrightarrow>
      fst (delete_records env self) =
        (if is_Exception e
         then Inr (create_result_dict 0 False (''Failed to delete records: '' @ exn_str e) PNone)
         else Inl e)) \<and>
   build_filter self (snd (docs_to_data docs)) \<noteq> Inl e \<and>
   (build_filter self documents = Inl e \<longrightarrow>
      fst (delete_found env coll documents self) = Inl e) \<and>
   (collection_used env self = Some coll \<and> search_documents_base env None = Inr docs \<and>
    build_filter self (snd (docs_to_data docs)) = Inr flt \<and>
    delete_many env coll flt = Inl e \<longrightarrow>
      fst (delete_records env self) =
        (if is_Exception e
         then Inr (create_result_dict 0 False (''Failed to delete records: '' @ exn_str e) PNone)
         else Inl e)) \<and>
   (fst (delete_records_try env self) = Inl e \<longrightarrow>
      fst (delete_records env self) =
        (if is_Exception e
         then Inr (create_result_dict 0 False (''Failed to delete records: '' @ exn_str e) PNone)
         else Inl e)) \<and>
   (fst (delete_records env self) = Inl e \<longrightarrow>
      \<not> is_Exception e \<and> fst (delete_records_try env self) = Inl e) \<and>
   create_result_dict 0 False (''Failed to delete records: '' @ exn_str e) PNone =
     [\<lparr>data = [(''deleted_count'', PInt 0),
               (''success'', PBool False),
               (''message'', PStr (''Failed to delete records: '' @ exn_str e)),
               (''dataframe'', PNone)],
       text_key = ''message''\<rparr>]"
proof (intro conjI impI)
  assume "not_client (client self) \<and> AstraDB env (token self) (api_endpoint self) = Inl e"
  then have "fst (delete_records_try env self) = Inl e"
    using run_result_no_client[of self env e] by blast
  then show "fst (delete_records env self) =
        (if is_Exception e
         then Inr (create_result_dict 0 False (''Failed to delete records: '' @ exn_str e) PNone)
         else Inl e)"
    by (rule handler_raised)
next
  assume "client_used env self = Some cl \<and> collection env cl (collection_name self) = Inl e"
  then have "fst (delete_records_try env self) = Inl e"
    using run_result_lookup_raises[of env self cl e] by blast
  then show "fst (delete_records env self) =
        (if is_Exception e
         then Inr (create_result_dict 0 False (''Failed to delete records: '' @ exn_str e) PNone)
         else Inl e)"
    by (rule handler_raised)
next
  assume "collection_used env self = Some coll \<and> search_documents_base env None = Inl e"
  then have "fst (delete_records_try env self) = Inl e"
    using run_result_search_raises[of env self coll e] by blast
  then show "fst (delete_records env self) =
        (if is_Exception e
         then Inr (create_result_dict 0 False (''Failed to delete records: '' @ exn_str e) PNone)
         else Inl e)"
    by (rule handler_raised)
next
  show "build_filter self (snd (docs_to_data docs)) \<noteq> Inl e"
    by (rule build_filter_converted_returns)
next
  assume "build_filter self documents = Inl e"
  then show "fst (delete_found env coll documents self) = Inl e"
    by (rule delete_found_filter_raises)
next
  assume "collection_used env self = Some coll \<and> search_documents_base env None = Inr docs \<and>
    build_filter self (snd (docs_to_data docs)) = Inr flt \<and>
    delete_many env coll flt = Inl e"
  then have "fst (delete_records_try env self) = Inl e"
    using run_result_delete_raises[of env self coll docs flt e] by blast
  then show "fst (delete_records env self) =
        (if is_Exception e
         then Inr (create_result_dict 0 False (''Failed to delete records: '' @ exn_str e) PNone)
         else Inl e)"
    by (rule handler_raised)
next
  assume "fst (delete_records_try env self) = Inl e"
  then show "fst (delete_records env self) =
        (if is_Exception e
         then Inr (create_result_dict 0 False (''Failed to delete records: '' @ exn_str e) PNone)
         else Inl e)"
    by (rule handler_raised)
next
  assume a: "fst (delete_records env self) = Inl e"
  show "\<not> is_Exception e" using handler_leaves[OF a] by blast
  show "fst (delete_records_try env self) = Inl e" using handler_leaves[OF a] by blast
next
  show "create_result_dict 0 False (''Failed to delete records: '' @ exn_str e) PNone =
     [\<lparr>data = [(''deleted_count'', PInt 0),
               (''success'', PBool False),
               (''message'', PStr (''Failed to delete records: '' @ exn_str e)),
               (''dataframe'', PNone)],
       text_key = ''message''\<rparr>]"
    by (simp add: create_result_dict_def)
qed

theorem delete_records_catches_Exception_witness:
  "fst (delete_records failing_client_env demo_self) =
     Inr (create_result_dict 0 False ''Failed to delete records: invalid token'' PNone) \<and>
   fst (delete_records raising_lookup_env demo_self) =
     Inr (create_result_dict 0 False ''Failed to delete records: endpoint unreachable'' PNone) \<and>
   fst (delete_records raising_search_env demo_self) =
     Inr (create_result_dict 0 False ''Failed to delete records: no embedding model'' PNone) \<and>
   fst (delete_found demo_env (Collection 7 True) [record_without_id] demo_self) =
     Inl (Exn ''AttributeError''
            (apostrophe @ ''Data'' @ apostrophe @ '' object has no attribute '' @
             apostrophe @ ''id'' @ apostrophe)) \<and>
   fst (delete_records failing_delete_env demo_self) =
     Inr (create_result_dict 0 False ''Failed to delete records: request timed out'' PNone) \<and>
   fst (delete_records interrupted_delete_env demo_self) = Inl (Signal ''KeyboardInterrupt'' []) \<and>
   fst (delete_records silent_reply_env demo_self) =
     Inr (create_result_dict 0 False
            (''Failed to delete records: '' @ apostrophe @ ''status'' @ apostrophe) PNone) \<and>
   fst (delete_records_try interrupted_delete_env demo_self) =
     Inl (Signal ''KeyboardInterrupt'' []) \<and>
   create_result_dict 0 False ''Failed to delete records: invalid token'' PNone =
     [\<lparr>data = [(''deleted_count'', PInt 0),
               (''success'', PBool False),
               (''message'', PStr ''Failed to delete records: invalid token''),
               (''dataframe'', PNone)],
       text_key = ''message''\<rparr>]"
proof -
  note defs = collection_used_def client_used_def not_client_def not_collection_def
    demo_env_def demo_self_def
  have nc: "not_client (client demo_self)" by (simp add: not_client_def demo_self_def)
  have c1: "not_client (client demo_self) \<and>
      AstraDB failing_client_env (token demo_self) (api_endpoint demo_self) =
        Inl (Exn ''ValueError'' ''invalid token'')"
    using nc by (simp add: failing_client_env_def)
  have 1: "fst (delete_records failing_client_env demo_self) =
     Inr (create_result_dict 0 False ''Failed to delete records: invalid token'' PNone)"
    using delete_records_catches_Exception[of demo_self failing_client_env
        "Exn ''ValueError'' ''invalid token''", THEN conjunct1, rule_format, OF c1]
    by simp
  have c2: "client_used raising_lookup_env demo_self = Some (Client 1 True) \<and>
      collection raising_lookup_env (Client 1 True) (collection_name demo_self) =
        Inl (Exn ''ConnectionError'' ''endpoint unreachable'')"
    by (simp add: raising_lookup_env_def defs)
  have 2: "fst (delete_records raising_lookup_env demo_self) =
     Inr (create_result_dict 0 False ''Failed to delete records: endpoint unreachable'' PNone)"
    using delete_records_catches_Exception[of demo_self raising_lookup_env
        "Exn ''ConnectionError'' ''endpoint unreachable''" "Client 1 True",
        THEN conjunct2, THEN conjunct1, rule_format, OF c2]
    by simp
  have c3: "collection_used raising_search_env demo_self = Some (Collection 7 True) \<and>
      search_documents_base raising_search_env None = Inl (Exn ''ValueError'' ''no embedding model'')"
    by (simp add: raising_search_env_def defs)
  have 3: "fst (delete_records raising_search_env demo_self) =
     Inr (create_result_dict 0 False ''Failed to delete records: no embedding model'' PNone)"
    using delete_records_catches_Exception[of demo_self raising_search_env
        "Exn ''ValueError'' ''no embedding model''" _ "Collection 7 True",
        THEN conjunct2, THEN conjunct2, THEN conjunct1, rule_format, OF c3]
    by simp
  have c4: "build_filter demo_self [record_without_id] =
      Inl (Exn ''AttributeError''
            (apostrophe @ ''Data'' @ apostrophe @ '' object has no attribute '' @
             apostrophe @ ''id'' @ apostrophe))"
    by (simp add: build_filter_def getattr_Data_def record_without_id_def demo_self_def)
  have 4: "fst (delete_found demo_env (Collection 7 True) [record_without_id] demo_self) =
     Inl (Exn ''AttributeError''
            (apostrophe @ ''Data'' @ apostrophe @ '' object has no attribute '' @
             apostrophe @ ''id'' @ apostrophe))"
    by (rule delete_records_catches_Exception[THEN conjunct2, THEN conjunct2, THEN conjunct2,
          THEN conjunct2, THEN conjunct1, rule_format, OF c4])
  have c5: "collection_used failing_delete_env demo_self = Some (Collection 7 True) \<and>
      search_documents_base failing_delete_env None = Inr demo_docs \<and>
      build_filter demo_self (snd (docs_to_data demo_docs)) =
        Inr (PDict [(''_id'', PDict [(''$in'', PList (map doc_id demo_docs))])]) \<and>
      delete_many failing_delete_env (Collection 7 True)
        (PDict [(''_id'', PDict [(''$in'', PList (map doc_id demo_docs))])]) =
        Inl (Exn ''DataAPIException'' ''request timed out'')"
    using demo_build_filter by (simp add: failing_delete_env_def defs)
  have 5: "fst (delete_records failing_delete_env demo_self) =
     Inr (create_result_dict 0 False ''Failed to delete records: request timed out'' PNone)"
    using delete_records_catches_Exception[THEN conjunct2, THEN conjunct2, THEN conjunct2,
        THEN conjunct2, THEN conjunct2, THEN conjunct1, rule_format, OF c5]
    by simp
  have c6: "collection_used interrupted_delete_env demo_self = Some (Collection 7 True) \<and>
      search_documents_base interrupted_delete_env None = Inr demo_docs \<and>
      build_filter demo_self (snd (docs_to_data demo_docs)) =
        Inr (PDict [(''_id'', PDict [(''$in'', PList (map doc_id demo_docs))])]) \<and>
      delete_many interrupted_delete_env (Collection 7 True)
        (PDict [(''_id'', PDict [(''$in'', PList (map doc_id demo_docs))])]) =
        Inl (Signal ''KeyboardInterrupt'' [])"
    using demo_build_filter by (simp add: interrupted_delete_env_def defs)
  have 6: "fst (delete_records interrupted_delete_env demo_self) =
      Inl (Signal ''KeyboardInterrupt'' [])"
    using delete_records_catches_Exception[THEN conjunct2, THEN conjunct2, THEN conjunct2,
        THEN conjunct2, THEN conjunct2, THEN conjunct1, rule_format, OF c6]
    by simp
  have cu7: "collection_used silent_reply_env demo_self = Some (Collection 7 True)"
    by (simp add: silent_reply_env_def defs)
  have se7: "search_documents_base silent_reply_env None = Inr demo_docs"
    by (simp add: silent_reply_env_def demo_env_def)
  have "fst (delete_records_try silent_reply_env demo_self) =
      fst (delete_found silent_reply_env (Collection 7 True) (snd (docs_to_data demo_docs))
             demo_self)"
    by (rule run_result_found[OF cu7 se7])
  also have "\<dots> = Inl (Exn ''KeyError'' (apostrophe @ ''status'' @ apostrophe))"
    by (simp add: delete_found_def demo_build_filter Let_def silent_reply_env_def)
  finally have c7: "fst (delete_records_try silent_reply_env demo_self) =
      Inl (Exn ''KeyError'' (apostrophe @ ''status'' @ apostrophe))" .
  have 7: "fst (delete_records silent_reply_env demo_self) =
     Inr (create_result_dict 0 False
            (''Failed to delete records: '' @ apostrophe @ ''status'' @ apostrophe) PNone)"
    using delete_records_catches_Exception[THEN conjunct2, THEN conjunct2, THEN conjunct2,
        THEN conjunct2, THEN conjunct2, THEN conjunct2, THEN conjunct1, rule_format, OF c7]
    by simp
  have 8: "fst (delete_records_try interrupted_delete_env demo_self) =
     Inl (Signal ''KeyboardInterrupt'' [])"
    using delete_records_catches_Exception[THEN conjunct2, THEN conjunct2, THEN conjunct2,
        THEN conjunct2, THEN conjunct2, THEN conjunct2, THEN conjunct2, THEN conjunct1,
        rule_format, OF 6]
    by blast
  have 9: "create_result_dict 0 False ''Failed to delete records: invalid token'' PNone =
     [\<lparr>data = [(''deleted_count'', PInt 0),
               (''success'', PBool False),
               (''message'', PStr ''Failed to delete records: invalid token''),
               (''dataframe'', PNone)],
       text_key = ''message''\<rparr>]"
    using delete_records_catches_Exception[of _ _ "Exn ''ValueError'' ''invalid token''",
        THEN conjunct2, THEN conjunct2, THEN conjunct2, THEN conjunct2, THEN conjunct2,
        THEN conjunct2, THEN conjunct2, THEN conjunct2]
    by simp
  show ?thesis using 1 2 3 4 5 6 7 8 9 by blast
qed

text \<open>
  The statement that \<open>delete_records\<close> never raises fails when the bulk delete is
  interrupted from the keyboard: \<open>KeyboardInterrupt\<close> is no instance of \<open>Exception\<close>, the
  handler does not take it, and it reaches the caller.
\<close>

theorem delete_records_raises_counterexample:
  "fst (delete_records interrupted_delete_env demo_self) = Inl (Signal ''KeyboardInterrupt'' [])"
proof -
  have cu: "collection_used interrupted_delete_env demo_self = Some (Collection 7 True)"
    by (simp add: interrupted_delete_env_def collection_used_def client_used_def not_client_def
        not_collection_def demo_env_def demo_self_def)
  have se: "search_documents_base interrupted_delete_env None = Inr demo_docs"
    by (simp add: interrupted_delete_env_def demo_env_def)
  have dm: "delete_many interrupted_delete_env (Collection 7 True)
        (PDict [(''_id'', PDict [(''$in'', PList (map doc_id demo_docs))])]) =
        Inl (Signal ''KeyboardInterrupt'' [])"
    by (simp add: interrupted_delete_env_def)
  have "fst (delete_records_try interrupted_delete_env demo_self) =
      Inl (Signal ''KeyboardInterrupt'' [])"
    by (rule run_result_delete_raises[OF cu se demo_build_filter dm])
  then show ?thesis using handler_raised by fastforce
qed



text \<open>
  Claim C6. When the collection lookup returns a falsy value (\<open>None\<close> or a falsy
  object), \<open>delete_records\<close> returns exactly one failure record, with \<open>deleted_count\<close> 0
  and \<open>success\<close> false, and no bulk delete is issued.
\<close>

theorem missing_collection_failure:
  assumes "client_used env self = Some cl"
    and "collection env cl (collection_name self) = Inr co"
    and "not_collection co"
  shows "fst (delete_records env self) =
           Inr [\<lparr>data = [(''deleted_count'', PInt 0),
                         (''success'', PBool False),
                         (''message'', PStr (''Failed to delete records: Collection '' @
                                            collection_name self @ '' not found'')),
                         (''dataframe'', PNone)],
                 text_key = ''message''\<rparr>] \<and>
         delete_calls (calls_made self (snd (delete_records env self))) = []"
proof -
  have "collection_used env self = None"
    using assms by (simp add: collection_used_def)
  then have "delete_calls (calls_made self (snd (delete_records env self))) = []"
    by (simp add: run_delete_calls)
  then show ?thesis
    using handler_failure[OF run_result_no_collection[OF assms]]
    by (simp add: failure_record_def)
qed

theorem missing_collection_failure_witness:
  "client_used missing_collection_env demo_self = Some (Client 1 True) \<and>
   collection missing_collection_env (Client 1 True) (collection_name demo_self) = Inr None \<and>
   not_collection None \<and>
   fst (delete_records missing_collection_env demo_self) =
     Inr [\<lparr>data = [(''deleted_count'', PInt 0),
                   (''success'', PBool False),
                   (''message'', PStr ''Failed to delete records: Collection books not found''),
                   (''dataframe'', PNone)],
           text_key = ''message''\<rparr>] \<and>
   delete_calls (calls_made demo_self (snd (delete_records missing_collection_env demo_self))) = []"
proof -
  have a: "client_used missing_collection_env demo_self = Some (Client 1 True)"
    by (simp add: client_used_def not_client_def missing_collection_env_def demo_env_def
        demo_self_def)
  have b: "collection missing_collection_env (Client 1 True) (collection_name demo_self) =
      Inr None"
    by (simp add: missing_collection_env_def)
  have c: "not_collection None" by (simp add: not_collection_def)
  have n: "collection_name demo_self = ''books''" by (simp add: demo_self_def)
  show ?thesis using missing_collection_failure[OF a b c] a b c by (simp add: n)
qed

text \<open>
  Claim C9. The client is created lazily and cached. With a truthy client in the
  field, \<open>delete_records\<close> leaves the field as it is and calls no constructor. With the
  field falsy, it calls the constructor once, with the token and the endpoint, and stores
  what the constructor returns. A truthy client stored by one run is still the field's
  value after the next run, which calls no constructor.
\<close>

theorem client_lazily_created_and_cached:
  "(\<not> not_client (client self) \<longrightarrow>
      client (snd (delete_records env self)) = client self \<and>
      constructor_calls (calls_made self (snd (delete_records env self))) = []) \<and>
   (not_client (client self) \<longrightarrow>
      constructor_calls (calls_made self (snd (delete_records env self))) =
        [(token self, api_endpoint self)] \<and>
      client (snd (delete_records env self)) =
        (case AstraDB env (token self) (api_endpoint self) of
           Inl e \<Rightarrow> client self
         | Inr c \<Rightarrow> Some c)) \<and>
   (\<forall>c env'. not_client (client self) \<and>
        AstraDB env (token self) (api_endpoint self) = Inr c \<and> client_bool c \<longrightarrow>
        client (snd (delete_records env' (snd (delete_records env self)))) = Some c \<and>
        constructor_calls (calls_made (snd (delete_records env self))
          (snd (delete_records env' (snd (delete_records env self))))) = [])"
proof (intro conjI allI impI)
  assume "\<not> not_client (client self)"
  then show "client (snd (delete_records env self)) = client self"
    by (simp add: run_client client_after_def)
next
  assume "\<not> not_client (client self)"
  then show "constructor_calls (calls_made self (snd (delete_records env self))) = []"
    by (simp add: run_constructor_calls)
next
  assume "not_client (client self)"
  then show "constructor_calls (calls_made self (snd (delete_records env self))) =
        [(token self, api_endpoint self)]"
    by (simp add: run_constructor_calls)
next
  assume "not_client (client self)"
  then show "client (snd (delete_records env self)) =
        (case AstraDB env (token self) (api_endpoint self) of
           Inl e \<Rightarrow> client self
         | Inr c \<Rightarrow> Some c)"
    by (simp add: run_client client_after_def)
next
  fix c env'
  assume a: "not_client (client self) \<and>
        AstraDB env (token self) (api_endpoint self) = Inr c \<and> client_bool c"
  then have k: "client (snd (delete_records env self)) = Some c"
    by (simp add: run_client client_after_def)
  with a have n: "\<not> not_client (client (snd (delete_records env self)))"
    by (simp add: not_client_def)
  from n k show "client (snd (delete_records env' (snd (delete_records env self)))) = Some c"
    by (simp add: run_client client_after_def)
  from n show "constructor_calls (calls_made (snd (delete_records env self))
          (snd (delete_records env' (snd (delete_records env self))))) = []"
    by (simp add: run_constructor_calls)
qed

theorem client_lazily_created_and_cached_witness:
  "not_client (client demo_self) \<and>
   constructor_calls (calls_made demo_self (snd (delete_records demo_env demo_self))) =
     [(''secret'', ''https://db.example'')] \<and>
   client (snd (delete_records demo_env demo_self)) = Some (Client 1 True) \<and>
   \<not> not_client (client (snd (delete_records demo_env demo_self))) \<and>
   client (snd (delete_records failing_client_env (snd (delete_records demo_env demo_self)))) =
     Some (Client 1 True) \<and>
   constructor_calls (calls_made (snd (delete_records demo_env demo_self))
     (snd (delete_records failing_client_env (snd (delete_records demo_env demo_self))))) = []"
proof -
  have a: "not_client (client demo_self)" by (simp add: not_client_def demo_self_def)
  have b: "AstraDB demo_env (token demo_self) (api_endpoint demo_self) = Inr (Client 1 True)"
    by (simp add: demo_env_def)
  note w = client_lazily_created_and_cached[of demo_self demo_env]
  have 1: "constructor_calls (calls_made demo_self (snd (delete_records demo_env demo_self))) =
     [(''secret'', ''https://db.example'')]"
    using w[THEN conjunct2, THEN conjunct1, rule_format, OF a, THEN conjunct1]
    by (simp add: demo_self_def)
  have 2: "client (snd (delete_records demo_env demo_self)) = Some (Client 1 True)"
    using w[THEN conjunct2, THEN conjunct1, rule_format, OF a, THEN conjunct2] b
    by simp
  have 3: "\<not> not_client (client (snd (delete_records demo_env demo_self)))"
    using 2 by (simp add: not_client_def)
  have c: "not_client (client demo_self) \<and>
      AstraDB demo_env (token demo_self) (api_endpoint demo_self) = Inr (Client 1 True) \<and>
      client_bool (Client 1 True)"
    using a b by simp
  note r = w[THEN conjunct2, THEN conjunct2, rule_format, OF c, of failing_client_env]
  show ?thesis using a 1 2 3 r by blast
qed

end
